theory Spec2Isabelle
  imports Main "HOL-Library.AList" "HOL-Library.Sublist"
begin

section \<open>The document store\<close>

text \<open>
  The backend (\<^verbatim>\<open>backend/app.py\<close>) keeps everything in a document database: a
  collection \<^verbatim>\<open>bookings\<close>, a collection \<^verbatim>\<open>users\<close> and the two singleton documents
  \<^verbatim>\<open>setup_availability/current\<close> and \<^verbatim>\<open>pricing/current\<close>. A collection is an
  association list from document identifier to document; a singleton document that may be
  absent is an \<open>option\<close>. A dictionary is an association list in insertion order, read
  with \<open>map_of\<close>.
\<close>

record booking =
  user_id :: string
  name :: string
  email :: string
  phone :: string
  setup_id :: string
  players :: int
  date :: string
  time :: string
  duration :: int
  price :: int
  status :: string
  created_at :: string
  updated_at :: "string option"

record user_doc =
  user_email :: string
  user_password :: string
  user_name :: string
  user_phone :: string
  user_created_at :: string

record store =
  bookings :: "(string \<times> booking) list"
  users :: "(string \<times> user_doc) list"
  setup_availability :: "(string \<times> bool) list option"
  pricing :: "(string \<times> int) list option"

text \<open>
  Exceptions that the modelled code can raise, and the error responses of the routes.
  \<open>DatabaseError\<close> stands for whatever the database client raises when the database
  refuses a name or a document. Each response constructor stands for one status code;
  where a route has several messages under one code the message is carried along.
\<close>

datatype py_exception = KeyError string | TypeError | ValueError | DatabaseError

datatype error =
    ValidationError string    \<comment> \<open>400 with the given message\<close>
  | InvalidTimeFormat string  \<comment> \<open>400, the two answers of the hour validation of a reschedule\<close>
  | SlotUnavailable           \<comment> \<open>400 \<^verbatim>\<open>Selected time slot is not available\<close>\<close>
  | Forbidden string          \<comment> \<open>403 with the given message\<close>
  | NotFound                  \<comment> \<open>404 \<^verbatim>\<open>Booking not found\<close>\<close>
  | UnexpectedError py_exception  \<comment> \<open>500, the \<^verbatim>\<open>except Exception\<close> handler of a route\<close>

section \<open>Time slots\<close>

text \<open>
  \<^verbatim>\<open>all_slots = [f"{hour:02d}:00" for hour in range(10, 24)]\<close>. The format
  \<^verbatim>\<open>02d\<close> writes the number in decimal and pads it with zeros to two characters.
\<close>

definition digit_char :: "nat \<Rightarrow> char" where
  "digit_char d = ''0123456789'' ! (d mod 10)"

fun str_nat :: "nat \<Rightarrow> string" where
  "str_nat n = (if n < 10 then [digit_char n] else str_nat (n div 10) @ [digit_char n])"

definition format_02d :: "nat \<Rightarrow> string" where
  "format_02d n = (let s = str_nat n in replicate (2 - length s) (CHR ''0'') @ s)"

definition slot_label :: "nat \<Rightarrow> string" where
  "slot_label hour = format_02d hour @ '':00''"

definition all_slots :: "string list" where
  "all_slots = map slot_label [10..<24]"

section \<open>Availability resolver\<close>

text \<open>
  \<^verbatim>\<open>slot_bookings = {slot: {'total': 0, 'setups': {}} for slot in all_slots}\<close>: per slot
  a total and a dictionary from setup identifier to a count.
\<close>

record slot_tally =
  total_cnt :: nat
  setups :: "(string \<times> nat) list"

type_synonym slot_table = "(string \<times> slot_tally) list"

definition default_setups :: "(string \<times> bool) list" where
  "default_setups =
     [(''ps5_setup_1'', True), (''ps5_setup_2'', True),
      (''racing_simulator'', True), (''pool_table'', True)]"

definition available_setups :: "store \<Rightarrow> (string \<times> bool) list" where
  "available_setups st =
     (case setup_availability st of Some d \<Rightarrow> d | None \<Rightarrow> default_setups)"

text \<open>\<^verbatim>\<open>bookings_ref.where('date', '==', date).get()\<close>\<close>

definition bookings_where_date :: "store \<Rightarrow> string \<Rightarrow> booking list" where
  "bookings_where_date st d = filter (\<lambda>b. date b = d) (map snd (bookings st))"

text \<open>
  Lines 198 to 200: \<^verbatim>\<open>if setup not in d: d[setup] = 0\<close> and then
  \<^verbatim>\<open>d[setup] += 1\<close>.
\<close>

definition count_setup :: "(string \<times> nat) list \<Rightarrow> string \<Rightarrow> (string \<times> nat) list" where
  "count_setup d s =
     (let d' = (if map_of d s = None then AList.update s 0 d else d)
      in AList.map_entry s (\<lambda>c. c + 1) d')"

text \<open>The body of the loop over the bookings of the date (lines 192 to 200).\<close>

definition tally_booking :: "booking \<Rightarrow> slot_table \<Rightarrow> slot_table" where
  "tally_booking booking_data slot_bookings =
     (if status booking_data \<notin> set [''cancelled''] then
        (let slot = time booking_data; s = setup_id booking_data
         in if map_of slot_bookings slot \<noteq> None then
              AList.map_entry slot
                (\<lambda>t. \<lparr>total_cnt = total_cnt t + 1, setups = count_setup (setups t) s\<rparr>)
                slot_bookings
            else slot_bookings)
      else slot_bookings)"

fun tally_bookings :: "booking list \<Rightarrow> slot_table \<Rightarrow> slot_table" where
  "tally_bookings [] slot_bookings = slot_bookings"
| "tally_bookings (b # bs) slot_bookings = tally_bookings bs (tally_booking b slot_bookings)"

definition initial_slot_bookings :: slot_table where
  "initial_slot_bookings = map (\<lambda>slot. (slot, \<lparr>total_cnt = 0, setups = []\<rparr>)) all_slots"

text \<open>\<^verbatim>\<open>sum(1 for setup, available in available_setups.items() if available)\<close>\<close>

definition total_setups :: "store \<Rightarrow> nat" where
  "total_setups st = length (filter (\<lambda>(s, available). available) (available_setups st))"

text \<open>
  The inner loop of lines 212 to 216. Its body is two tests that each end in
  \<^verbatim>\<open>continue\<close>, which goes on with the next item of this same loop. The loop is
  modelled as the passage of \<^verbatim>\<open>available_slots\<close> through its iterations.
\<close>

datatype flow = Continue | Fallthrough

definition startswith :: "string \<Rightarrow> string \<Rightarrow> bool" where
  "startswith s p = (take (length p) s = p)"

definition capacity_check :: "string \<Rightarrow> nat \<Rightarrow> flow" where
  "capacity_check s c =
     (if startswith s ''ps5'' \<and> c \<ge> 2 then Continue
      else if s \<in> set [''racing_simulator'', ''pool_table''] \<and> c \<ge> 1 then Continue
      else Fallthrough)"

fun capacity_loop :: "(string \<times> nat) list \<Rightarrow> string list \<Rightarrow> string list" where
  "capacity_loop [] available_slots = available_slots"
| "capacity_loop ((s, c) # items) available_slots =
     (case capacity_check s c of
        Continue \<Rightarrow> capacity_loop items available_slots
      | Fallthrough \<Rightarrow> capacity_loop items available_slots)"

text \<open>
  The loop over \<^verbatim>\<open>all_slots\<close> (lines 206 to 217). \<^verbatim>\<open>slot_bookings[slot]\<close> raises
  \<^verbatim>\<open>KeyError\<close> on a missing key.
\<close>

fun check_slots :: "slot_table \<Rightarrow> nat \<Rightarrow> string list \<Rightarrow> string list
    \<Rightarrow> py_exception + string list" where
  "check_slots slot_bookings n [] available_slots = Inr available_slots"
| "check_slots slot_bookings n (slot # rest) available_slots =
     (case map_of slot_bookings slot of
        None \<Rightarrow> Inl (KeyError slot)
      | Some t \<Rightarrow>
          if total_cnt t < n then
            check_slots slot_bookings n rest (capacity_loop (setups t) available_slots @ [slot])
          else check_slots slot_bookings n rest available_slots)"

definition get_available_time_slots :: "store \<Rightarrow> string \<Rightarrow> py_exception + string list" where
  "get_available_time_slots st d =
     (let slot_bookings = tally_bookings (bookings_where_date st d) initial_slot_bookings
      in check_slots slot_bookings (total_setups st) all_slots [])"

text \<open>
  The resolver without the inner loop, for comparison: the same function with lines 211
  to 216 removed.
\<close>

fun check_slots_simplified :: "slot_table \<Rightarrow> nat \<Rightarrow> string list \<Rightarrow> string list
    \<Rightarrow> py_exception + string list" where
  "check_slots_simplified slot_bookings n [] available_slots = Inr available_slots"
| "check_slots_simplified slot_bookings n (slot # rest) available_slots =
     (case map_of slot_bookings slot of
        None \<Rightarrow> Inl (KeyError slot)
      | Some t \<Rightarrow>
          if total_cnt t < n then
            check_slots_simplified slot_bookings n rest (available_slots @ [slot])
          else check_slots_simplified slot_bookings n rest available_slots)"

definition get_available_time_slots_simplified ::
    "store \<Rightarrow> string \<Rightarrow> py_exception + string list" where
  "get_available_time_slots_simplified st d =
     (let slot_bookings = tally_bookings (bookings_where_date st d) initial_slot_bookings
      in check_slots_simplified slot_bookings (total_setups st) all_slots [])"

section \<open>Pricing calculator\<close>

definition default_pricing :: "(string \<times> int) list" where
  "default_pricing =
     [(''squad'', 400), (''individual'', 120), (''ps5_specific'', 400),
      (''racing'', 150), (''pool'', 400)]"

definition base_prices :: "store \<Rightarrow> (string \<times> int) list" where
  "base_prices st = (case pricing st of Some d \<Rightarrow> d | None \<Rightarrow> default_pricing)"

text \<open>\<^verbatim>\<open>base_prices[setup_type]\<close> raises \<^verbatim>\<open>KeyError\<close> on a missing key.\<close>

definition calculate_price :: "store \<Rightarrow> string \<Rightarrow> int \<Rightarrow> int \<Rightarrow> py_exception + int" where
  "calculate_price st setup_type dur pl =
     (if setup_type = ''individual'' then
        (case map_of (base_prices st) setup_type of
           None \<Rightarrow> Inl (KeyError setup_type)
         | Some r \<Rightarrow> Inr (r * pl * dur))
      else
        (case map_of (base_prices st) setup_type of
           None \<Rightarrow> Inl (KeyError setup_type)
         | Some r \<Rightarrow> Inr (r * dur)))"

section \<open>Reading integers\<close>

text \<open>
  \<^verbatim>\<open>int(s)\<close> on a string: surrounding whitespace is dropped, one sign is allowed, and
  the rest is decimal digits, with single underscores allowed between digits; anything
  else raises \<^verbatim>\<open>ValueError\<close>, and so does a number of more than 4300 digits (the
  interpreter's default \<^verbatim>\<open>int_max_str_digits\<close>). A \<open>char\<close> stands for a code point
  below 256. The whitespace that \<^verbatim>\<open>int\<close> drops is the C whitespace (space and
  U+0009 to U+000D) and, above ASCII, the Unicode spaces U+0085 and U+00A0; the
  separators U+001C to U+001F are not dropped. No code point from 128 to 255 is a
  decimal digit.
\<close>

definition is_space :: "char \<Rightarrow> bool" where
  "is_space c = (c \<in> set [CHR '' '', CHR 0x09, CHR 0x0A, CHR 0x0B, CHR 0x0C, CHR 0x0D,
                          CHR 0x85, CHR 0xA0])"

definition strip :: "string \<Rightarrow> string" where
  "strip s = rev (dropWhile is_space (rev (dropWhile is_space s)))"

definition is_digit :: "char \<Rightarrow> bool" where
  "is_digit c = (c \<in> set ''0123456789'')"

definition digit_val :: "char \<Rightarrow> int" where
  "digit_val c = of_char c - 48"

fun valid_digits :: "string \<Rightarrow> bool" where
  "valid_digits [] = False"
| "valid_digits [c] = is_digit c"
| "valid_digits (c # d # cs) =
     (is_digit c \<and> (if d = CHR ''_'' then valid_digits cs else valid_digits (d # cs)))"

definition digits_value :: "string \<Rightarrow> int" where
  "digits_value s = foldl (\<lambda>acc c. 10 * acc + digit_val c) 0 (filter (\<lambda>c. c \<noteq> CHR ''_'') s)"

definition int_max_str_digits :: nat where
  "int_max_str_digits = 4300"

definition py_int :: "string \<Rightarrow> int option" where
  "py_int s =
     (let t = strip s;
          (sign, body) = (case t of
                            c # r \<Rightarrow> if c = CHR ''-'' then (- 1, r)
                                     else if c = CHR ''+'' then (1, r) else (1, t)
                          | [] \<Rightarrow> (1, t))
      in if valid_digits body
            \<and> length (filter (\<lambda>c. c \<noteq> CHR ''_'') body) \<le> int_max_str_digits
         then Some (sign * digits_value body) else None)"

text \<open>
  A numeric field of a request body arrives as a JSON number or as a string; the routes
  pass it through \<^verbatim>\<open>int(...)\<close>. Other kinds of JSON value are not modelled.
\<close>

datatype json_value = JInt int | JStr string

definition int_of_json :: "json_value \<Rightarrow> py_exception + int" where
  "int_of_json v =
     (case v of
        JInt n \<Rightarrow> Inr n
      | JStr s \<Rightarrow> (case py_int s of None \<Rightarrow> Inl ValueError | Some n \<Rightarrow> Inr n))"

section \<open>What the database accepts\<close>

text \<open>
  \<^verbatim>\<open>db.collection(c).document(document_id).get()\<close> on an identifier that comes
  straight from a request. The client joins the collection and the identifier with
  \<^verbatim>\<open>/\<close>, splits the result at every \<^verbatim>\<open>/\<close> and raises \<^verbatim>\<open>ValueError\<close> when
  the number of path elements is odd, since a document path has an even number. A longer
  path of even length names a document of a nested collection, of which the store has
  none. Which element names the database itself accepts (it reserves some, and bounds
  their length) is not decided by the repository: \<open>accepts_name\<close> is an argument.
\<close>

fun split_sep :: "char \<Rightarrow> string \<Rightarrow> string list" where
  "split_sep sep [] = [[]]"
| "split_sep sep (x # xs) =
     (if x = sep then [] # split_sep sep xs
      else (case split_sep sep xs of [] \<Rightarrow> [[x]] | p # ps \<Rightarrow> (x # p) # ps))"

definition document_get ::
    "(string \<Rightarrow> bool) \<Rightarrow> string \<Rightarrow> (string \<times> 'a) list \<Rightarrow> string
      \<Rightarrow> py_exception + 'a option" where
  "document_get accepts_name collection docs document_id =
     (let path = collection # split_sep (CHR ''/'') document_id
      in if odd (length path) then Inl ValueError
         else if \<not> list_all accepts_name (tl path) then Inl DatabaseError
         else if length path = 2 then Inr (map_of docs document_id)
         else Inr None)"

text \<open>
  \<^verbatim>\<open>booking_ref.set(booking_data)\<close>. The database stores integers in 64 bits and the
  client raises on a larger one; the other limits of the database (such as the size of
  a document) are again an argument, \<open>accepts_document\<close>.
\<close>

definition int64 :: "int \<Rightarrow> bool" where
  "int64 n = (- (2 ^ 63) \<le> n \<and> n < 2 ^ 63)"

definition storable :: "(booking \<Rightarrow> bool) \<Rightarrow> booking \<Rightarrow> bool" where
  "storable accepts_document b =
     (int64 (players b) \<and> int64 (duration b) \<and> int64 (price b) \<and> accepts_document b)"

section \<open>Booking lifecycle\<close>

text \<open>
  A route takes the store and returns its response together with the store it leaves
  behind. A success response is the booking with its identifier. The time stamp
  (\<^verbatim>\<open>datetime.now().isoformat()\<close>), the identifier that the database generates for a
  new document and the \<^verbatim>\<open>user_id\<close> of the verified token are arguments. The
  \<^verbatim>\<open>user_id\<close> of a token is the identifier under which the database stored the user
  (lines 556 and 601), and the identifier of the two update routes is one segment of the
  URL path, without a \<^verbatim>\<open>/\<close>; both are looked up as they are.
\<close>

type_synonym response = "error + (string \<times> booking)"

record create_request =
  req_setup :: "string option"
  req_players :: "json_value option"
  req_date :: "string option"
  req_time :: "string option"
  req_duration :: "json_value option"

text \<open>
  The loop over \<^verbatim>\<open>['setup', 'players', 'date', 'time', 'duration']\<close>: the first field
  that is missing, or else the five values.
\<close>

definition required_fields ::
    "create_request \<Rightarrow> string + (string \<times> json_value \<times> string \<times> string \<times> json_value)" where
  "required_fields data =
     (case req_setup data of None \<Rightarrow> Inl ''setup'' | Some s \<Rightarrow>
      (case req_players data of None \<Rightarrow> Inl ''players'' | Some p \<Rightarrow>
       (case req_date data of None \<Rightarrow> Inl ''date'' | Some d \<Rightarrow>
        (case req_time data of None \<Rightarrow> Inl ''time'' | Some t \<Rightarrow>
         (case req_duration data of None \<Rightarrow> Inl ''duration'' | Some dur \<Rightarrow>
            Inr (s, p, d, t, dur))))))"

text \<open>
  Lines 261 to 291, reached when the slot is available. The arguments of
  \<^verbatim>\<open>calculate_price\<close> are evaluated from left to right; \<^verbatim>\<open>user_data['name']\<close>
  raises \<^verbatim>\<open>TypeError\<close> when the user's document does not exist. When the database
  refuses the document, \<^verbatim>\<open>set\<close> raises and nothing is written.
\<close>

definition price_and_persist ::
    "(booking \<Rightarrow> bool) \<Rightarrow> store \<Rightarrow> string \<Rightarrow> string \<Rightarrow> string \<Rightarrow> string \<Rightarrow> json_value
      \<Rightarrow> string \<Rightarrow> string \<Rightarrow> json_value \<Rightarrow> response \<times> store" where
  "price_and_persist accepts_document st now new_id uid s p d t dur =
     (case int_of_json dur of Inl e \<Rightarrow> (Inl (UnexpectedError e), st) | Inr dur_n \<Rightarrow>
      (case int_of_json p of Inl e \<Rightarrow> (Inl (UnexpectedError e), st) | Inr p_n \<Rightarrow>
       (case calculate_price st s dur_n p_n of Inl e \<Rightarrow> (Inl (UnexpectedError e), st)
        | Inr pr \<Rightarrow>
         (case map_of (users st) uid of None \<Rightarrow> (Inl (UnexpectedError TypeError), st)
          | Some user_data \<Rightarrow>
             (let booking_data =
                    \<lparr>user_id = uid, name = user_name user_data, email = user_email user_data,
                     phone = user_phone user_data, setup_id = s, players = p_n, date = d,
                     time = t, duration = dur_n, price = pr, status = ''confirmed'',
                     created_at = now, updated_at = None\<rparr>
              in if storable accepts_document booking_data then
                   (Inr (new_id, booking_data),
                    st\<lparr>bookings := AList.update new_id booking_data (bookings st)\<rparr>)
                 else (Inl (UnexpectedError DatabaseError), st))))))"

definition create_booking ::
    "(booking \<Rightarrow> bool) \<Rightarrow> store \<Rightarrow> string \<Rightarrow> string \<Rightarrow> string \<Rightarrow> create_request
      \<Rightarrow> response \<times> store" where
  "create_booking accepts_document st now new_id uid data =
     (case required_fields data of
        Inl field \<Rightarrow> (Inl (ValidationError (''Missing required field: '' @ field)), st)
      | Inr (s, p, d, t, dur) \<Rightarrow>
          (case get_available_time_slots st d of
             Inl e \<Rightarrow> (Inl (UnexpectedError e), st)
           | Inr available_slots \<Rightarrow>
               if t \<notin> set available_slots then (Inl SlotUnavailable, st)
               else price_and_persist accepts_document st now new_id uid s p d t dur))"

record update_request =
  upd_status :: "string option"
  upd_date :: "string option"
  upd_time :: "string option"

text \<open>
  \<^verbatim>\<open>updated_booking = booking_ref.get().to_dict()\<close> followed by
  \<^verbatim>\<open>updated_booking['id'] = booking_id\<close>, which raises \<^verbatim>\<open>TypeError\<close> on a
  document that does not exist.
\<close>

definition read_back :: "store \<Rightarrow> string \<Rightarrow> response \<times> store" where
  "read_back st booking_id =
     (case map_of (bookings st) booking_id of
        None \<Rightarrow> (Inl (UnexpectedError TypeError), st)
      | Some updated_booking \<Rightarrow> (Inr (booking_id, updated_booking), st))"

text \<open>
  The cancellation and rescheduling blocks, which are the same text in
  \<^verbatim>\<open>update_booking\<close> (lines 309 to 345) and \<^verbatim>\<open>update_user_booking\<close> (lines 655 to
  691). \<^verbatim>\<open>data['time'].split(':')[0]\<close> is the text before the first colon.
\<close>

definition cancel_or_reschedule ::
    "store \<Rightarrow> string \<Rightarrow> string \<Rightarrow> update_request \<Rightarrow> response \<times> store" where
  "cancel_or_reschedule st now booking_id data =
     (if upd_status data = Some ''cancelled'' then
        read_back
          (st\<lparr>bookings :=
                AList.map_entry booking_id (\<lambda>b. b\<lparr>status := ''cancelled''\<rparr>) (bookings st)\<rparr>)
          booking_id
      else
        (case (upd_date data, upd_time data) of
           (Some d, Some t) \<Rightarrow>
             (case py_int (takeWhile (\<lambda>c. c \<noteq> CHR '':'') t) of
                None \<Rightarrow> (Inl (InvalidTimeFormat ''Invalid time format''), st)
              | Some hour \<Rightarrow>
                  if hour < 10 \<or> hour > 23 then
                    (Inl (InvalidTimeFormat
                       ''Invalid time slot. Hours must be between 10 AM and 11 PM''), st)
                  else
                    (case get_available_time_slots st d of
                       Inl e \<Rightarrow> (Inl (UnexpectedError e), st)
                     | Inr available_slots \<Rightarrow>
                         if t \<notin> set available_slots then (Inl SlotUnavailable, st)
                         else
                           read_back
                             (st\<lparr>bookings :=
                                   AList.map_entry booking_id
                                     (\<lambda>b. b\<lparr>date := d, time := t, status := ''rescheduled'',
                                            updated_at := Some now\<rparr>)
                                     (bookings st)\<rparr>)
                             booking_id))
         | _ \<Rightarrow> (Inl (ValidationError ''Invalid update request''), st)))"

definition update_booking ::
    "store \<Rightarrow> string \<Rightarrow> string \<Rightarrow> update_request \<Rightarrow> response \<times> store" where
  "update_booking st now booking_id data =
     (case map_of (bookings st) booking_id of
        None \<Rightarrow> (Inl NotFound, st)
      | Some booking_data \<Rightarrow> cancel_or_reschedule st now booking_id data)"

definition update_user_booking ::
    "store \<Rightarrow> string \<Rightarrow> string \<Rightarrow> string \<Rightarrow> update_request \<Rightarrow> response \<times> store" where
  "update_user_booking st now uid booking_id data =
     (case map_of (bookings st) booking_id of
        None \<Rightarrow> (Inl NotFound, st)
      | Some booking_data \<Rightarrow>
          if user_id booking_data \<noteq> uid then (Inl (Forbidden ''Unauthorized access''), st)
          else cancel_or_reschedule st now booking_id data)"

text \<open>
  \<^verbatim>\<open>check_booking\<close>: the two query parameters may be absent; \<^verbatim>\<open>not x\<close> holds of an
  absent and of an empty one. The identifier is the raw query parameter, so the lookup
  can raise, which the route answers with 500 (lines 413 and 414).
\<close>

definition falsy :: "string option \<Rightarrow> bool" where
  "falsy x = (case x of None \<Rightarrow> True | Some s \<Rightarrow> s = [])"

definition check_booking ::
    "(string \<Rightarrow> bool) \<Rightarrow> store \<Rightarrow> string option \<Rightarrow> string option \<Rightarrow> response" where
  "check_booking accepts_name st booking_id em =
     (if falsy booking_id \<or> falsy em then
        Inl (ValidationError ''Booking ID and email are required'')
      else
        (case (booking_id, em) of
           (Some i, Some e) \<Rightarrow>
             (case document_get accepts_name ''bookings'' (bookings st) i of
                Inl exn \<Rightarrow> Inl (UnexpectedError exn)
              | Inr None \<Rightarrow> Inl NotFound
              | Inr (Some booking_data) \<Rightarrow>
                  if email booking_data \<noteq> e then Inl (Forbidden ''Invalid credentials'')
                  else Inr (i, booking_data))
         | _ \<Rightarrow> Inl (ValidationError ''Booking ID and email are required'')))"

section \<open>Notions used to state the properties\<close>

text \<open>
  The number of bookings of a date that are not cancelled and whose time is the given
  slot, counted directly on the stored bookings.
\<close>

definition noncancelled_count :: "store \<Rightarrow> string \<Rightarrow> string \<Rightarrow> nat" where
  "noncancelled_count st d slot =
     length (filter (\<lambda>b. date b = d \<and> status b \<noteq> ''cancelled'' \<and> time b = slot)
               (map snd (bookings st)))"

text \<open>\<^verbatim>\<open>slot_bookings[slot]['total']\<close>, read as 0 where the table has no such slot.\<close>

definition total_of :: "slot_table \<Rightarrow> string \<Rightarrow> nat" where
  "total_of sb slot = (case map_of sb slot of None \<Rightarrow> 0 | Some t \<Rightarrow> total_cnt t)"

text \<open>Concrete stores and requests on which the properties are instantiated.\<close>

definition example_user :: user_doc where
  "example_user =
     \<lparr>user_email = ''ann@example.org'', user_password = ''5e88'', user_name = ''Ann'',
      user_phone = ''555'', user_created_at = ''2025-05-01T09:00:00''\<rparr>"

definition example_booking :: booking where
  "example_booking =
     \<lparr>user_id = ''u1'', name = ''Ann'', email = ''ann@example.org'', phone = ''555'',
      setup_id = ''individual'', players = 3, date = ''2025-06-01'', time = ''14:00'',
      duration = 2, price = 720, status = ''confirmed'',
      created_at = ''2025-05-20T10:00:00'', updated_at = None\<rparr>"

definition example_store :: store where
  "example_store =
     \<lparr>bookings = [(''b1'', example_booking)], users = [(''u1'', example_user)],
      setup_availability = None, pricing = None\<rparr>"

definition cancelled_store :: store where
  "cancelled_store =
     \<lparr>bookings = [(''b1'', example_booking\<lparr>status := ''cancelled''\<rparr>)],
      users = [(''u1'', example_user)], setup_availability = None, pricing = None\<rparr>"

definition one_setup_store :: store where
  "one_setup_store =
     \<lparr>bookings = [(''b1'', example_booking)], users = [(''u1'', example_user)],
      setup_availability = Some [(''pool_table'', True), (''racing_simulator'', False)],
      pricing = None\<rparr>"

definition example_request :: create_request where
  "example_request =
     \<lparr>req_setup = Some ''individual'', req_players = Some (JInt 3),
      req_date = Some ''2025-06-01'', req_time = Some ''15:00'',
      req_duration = Some (JStr ''2'')\<rparr>"

definition created_booking :: booking where
  "created_booking =
     \<lparr>user_id = ''u1'', name = ''Ann'', email = ''ann@example.org'', phone = ''555'',
      setup_id = ''individual'', players = 3, date = ''2025-06-01'', time = ''15:00'',
      duration = 2, price = 720, status = ''confirmed'',
      created_at = ''2025-05-21T08:00:00'', updated_at = None\<rparr>"

definition reschedule_request :: update_request where
  "reschedule_request =
     \<lparr>upd_status = None, upd_date = Some ''2025-06-02'', upd_time = Some ''15:00''\<rparr>"

definition rescheduled_booking :: booking where
  "rescheduled_booking =
     example_booking\<lparr>date := ''2025-06-02'', time := ''15:00'', status := ''rescheduled'',
                      updated_at := Some ''2025-05-21T08:00:00''\<rparr>"

section \<open>The resolver in closed form\<close>

lemma all_slots_eq:
  "all_slots = [''10:00'', ''11:00'', ''12:00'', ''13:00'', ''14:00'', ''15:00'', ''16:00'',
                ''17:00'', ''18:00'', ''19:00'', ''20:00'', ''21:00'', ''22:00'', ''23:00'']"
  by code_simp

lemma capacity_loop_id: "capacity_loop items acc = acc"
proof (induction items acc rule: capacity_loop.induct)
  case (1 available_slots)
  show ?case by simp
next
  case (2 s c items available_slots)
  then show ?case by (cases "capacity_check s c") simp_all
qed

lemma dom_tally_booking: "(map_of (tally_booking b sb) slot = None) = (map_of sb slot = None)"
  by (auto simp: tally_booking_def Let_def map_of_map_entry split: option.splits)

lemma dom_tally_bookings: "(map_of (tally_bookings bs sb) slot = None) = (map_of sb slot = None)"
  by (induction bs arbitrary: sb) (simp_all add: dom_tally_booking)

lemma total_tally_booking:
  "total_of (tally_booking b sb) slot =
     total_of sb slot +
       (if status b \<noteq> ''cancelled'' \<and> time b = slot \<and> map_of sb slot \<noteq> None then 1 else 0)"
  by (auto simp: tally_booking_def total_of_def Let_def map_of_map_entry split: option.splits)

lemma total_tally_bookings:
  "map_of sb slot \<noteq> None \<Longrightarrow>
   total_of (tally_bookings bs sb) slot =
     total_of sb slot + length (filter (\<lambda>b. status b \<noteq> ''cancelled'' \<and> time b = slot) bs)"
proof (induction bs arbitrary: sb)
  case Nil
  show ?case by simp
next
  case (Cons b bs)
  from Cons.prems have "map_of (tally_booking b sb) slot \<noteq> None"
    by (simp only: dom_tally_booking not_False_eq_True)
  from Cons.IH [OF this] show ?case
    using Cons.prems by (simp add: total_tally_booking del: not_None_eq)
qed

lemma check_slots_eq:
  "\<forall>slot \<in> set slots. map_of sb slot \<noteq> None \<Longrightarrow>
   check_slots sb n slots acc = Inr (acc @ filter (\<lambda>slot. total_of sb slot < n) slots)"
  by (induction slots arbitrary: acc) (auto simp: capacity_loop_id total_of_def)

lemma check_slots_simplified_eq:
  "\<forall>slot \<in> set slots. map_of sb slot \<noteq> None \<Longrightarrow>
   check_slots_simplified sb n slots acc =
     Inr (acc @ filter (\<lambda>slot. total_of sb slot < n) slots)"
  by (induction slots arbitrary: acc) (auto simp: total_of_def)

lemma initial_dom: "slot \<in> set all_slots \<Longrightarrow> map_of initial_slot_bookings slot \<noteq> None"
  by (simp add: initial_slot_bookings_def map_of_map_restrict)

lemma initial_total: "total_of initial_slot_bookings slot = 0"
  by (simp add: initial_slot_bookings_def total_of_def map_of_map_restrict restrict_map_def)

lemma tallied_dom:
  "\<forall>slot \<in> set all_slots.
     map_of (tally_bookings (bookings_where_date st d) initial_slot_bookings) slot \<noteq> None"
  by (simp add: dom_tally_bookings initial_dom)

lemma filter_date_count:
  "length (filter (\<lambda>b. status b \<noteq> ''cancelled'' \<and> time b = slot) (bookings_where_date st d))
   = noncancelled_count st d slot"
  by (simp add: bookings_where_date_def noncancelled_count_def conj_commute conj_left_commute)

lemma tallied_total:
  "slot \<in> set all_slots \<Longrightarrow>
   total_of (tally_bookings (bookings_where_date st d) initial_slot_bookings) slot
     = noncancelled_count st d slot"
  by (simp add: total_tally_bookings initial_dom initial_total filter_date_count)

lemma resolver_eq:
  "get_available_time_slots st d =
     Inr (filter (\<lambda>slot. noncancelled_count st d slot < total_setups st) all_slots)"
proof -
  let ?sb = "tally_bookings (bookings_where_date st d) initial_slot_bookings"
  have "filter (\<lambda>slot. total_of ?sb slot < total_setups st) all_slots
        = filter (\<lambda>slot. noncancelled_count st d slot < total_setups st) all_slots"
    by (rule filter_cong) (simp_all add: tallied_total)
  then show ?thesis
    by (simp add: get_available_time_slots_def check_slots_eq [OF tallied_dom])
qed

lemma noncancelled_count_filter_cancelled:
  "noncancelled_count
     (st\<lparr>bookings := filter (\<lambda>(i, b). status b \<noteq> ''cancelled'') (bookings st)\<rparr>) d slot
   = noncancelled_count st d slot"
proof -
  have "length (filter P (map snd (filter (\<lambda>(i, b). status b \<noteq> ''cancelled'') xs)))
        = length (filter (\<lambda>b. status b \<noteq> ''cancelled'' \<and> P b) (map snd xs))"
    for P and xs :: "(string \<times> booking) list"
    by (induction xs) auto
  from this [of "\<lambda>b. date b = d \<and> status b \<noteq> ''cancelled'' \<and> time b = slot" "bookings st"]
  show ?thesis
    by (simp add: noncancelled_count_def conj_commute conj_left_commute cong: conj_cong)
qed

lemma total_setups_bookings_update [simp]:
  "total_setups (st\<lparr>bookings := bs\<rparr>) = total_setups st"
  by (simp add: total_setups_def available_setups_def)

section \<open>Availability\<close>

text \<open>
  Claim C3. For every store and date the resolver returns a list, and a canonical slot is
  in it exactly when the number of bookings of that date that are not cancelled and whose
  time is that slot is strictly below the number of enabled setups; in particular the slot
  is left out when the two numbers are equal. Bookings with status \<^verbatim>\<open>cancelled\<close> do not
  count: dropping them from the store gives the same result.
\<close>

theorem slot_available_iff_count_below_total:
  assumes "slot \<in> set all_slots"
  shows "\<exists>slots. get_available_time_slots st d = Inr slots
           \<and> (slot \<in> set slots \<longleftrightarrow> noncancelled_count st d slot < total_setups st)
           \<and> (noncancelled_count st d slot = total_setups st \<longrightarrow> slot \<notin> set slots)
           \<and> get_available_time_slots
                (st\<lparr>bookings := filter (\<lambda>(i, b). status b \<noteq> ''cancelled'') (bookings st)\<rparr>) d
              = Inr slots"
  using assms by (simp add: resolver_eq noncancelled_count_filter_cancelled)

theorem slot_available_iff_count_below_total_witness:
  "''14:00'' \<in> set all_slots
   \<and> (\<exists>slots. get_available_time_slots one_setup_store ''2025-06-01'' = Inr slots
        \<and> ''14:00'' \<notin> set slots
        \<and> noncancelled_count one_setup_store ''2025-06-01'' ''14:00'' = 1
        \<and> total_setups one_setup_store = 1)"
proof -
  have h: "''14:00'' \<in> set all_slots" by (simp add: all_slots_eq)
  have c: "noncancelled_count one_setup_store ''2025-06-01'' ''14:00'' = 1"
    by (simp add: noncancelled_count_def one_setup_store_def example_booking_def)
  have t: "total_setups one_setup_store = 1"
    by (simp add: total_setups_def available_setups_def one_setup_store_def)
  from slot_available_iff_count_below_total [OF h, of one_setup_store "''2025-06-01''"] h c t
  show ?thesis by auto
qed





text \<open>
  Claim C2. The resolver gives the same result as the resolver without the inner loop over
  the per-setup counts, for every store and date. The loop over the slots with the inner
  loop equals the one without it on every table, and the inner loop hands back the list
  of available slots that it was given: the tests of \<^verbatim>\<open>ps5\<close> setups against 2 and of
  \<^verbatim>\<open>racing_simulator\<close> and \<^verbatim>\<open>pool_table\<close> against 1 remove nothing.
\<close>

theorem capacity_loop_has_no_effect:
  "get_available_time_slots st d = get_available_time_slots_simplified st d
   \<and> check_slots sb n slots acc = check_slots_simplified sb n slots acc
   \<and> capacity_loop items acc = acc"
proof -
  have a: "check_slots sb' n' slots' acc' = check_slots_simplified sb' n' slots' acc'"
    for sb' n' slots' acc'
    by (induction slots' arbitrary: acc') (simp_all add: capacity_loop_id split: option.splits)
  show ?thesis
    by (simp add: a capacity_loop_id get_available_time_slots_def
        get_available_time_slots_simplified_def)
qed






section \<open>Pricing\<close>

text \<open>
  Claim C4. When the setup type is a key of the rate table in force (the stored table, or
  the default rates when none is stored) with base rate \<open>r\<close>, the price is
  \<open>r * players * duration\<close> for \<^verbatim>\<open>individual\<close> and \<open>r * duration\<close>
  otherwise, whatever the player count. With the default rates,
  \<^verbatim>\<open>individual\<close> for 2 hours and 3 players costs 720, and \<^verbatim>\<open>squad\<close> for 2
  hours costs 800 for every player count.
\<close>

theorem calculate_price_formula:
  "(map_of (base_prices st) setup_type = Some r \<longrightarrow>
      calculate_price st setup_type dur pl =
        Inr (if setup_type = ''individual'' then r * pl * dur else r * dur))
   \<and> (pricing st = None \<longrightarrow>
        calculate_price st ''individual'' 2 3 = Inr 720
        \<and> calculate_price st ''squad'' 2 pl = Inr 800)"
  by (simp add: calculate_price_def base_prices_def default_pricing_def)

theorem calculate_price_formula_witness:
  "map_of (base_prices example_store) ''racing'' = Some 150
   \<and> calculate_price example_store ''racing'' 3 5 = Inr 450
   \<and> pricing example_store = None
   \<and> calculate_price example_store ''individual'' 2 3 = Inr 720
   \<and> calculate_price example_store ''squad'' 2 5 = Inr 800"
proof -
  have a: "map_of (base_prices example_store) ''racing'' = Some 150"
    by (simp add: base_prices_def default_pricing_def example_store_def)
  have b: "pricing example_store = None"
    by (simp add: example_store_def)
  from calculate_price_formula [of example_store "''racing''" 150 3 5] a b
  show ?thesis by simp
qed

text \<open>
  Claim C9. The pricing calculator fails exactly when the setup type is not a key of the
  rate table in force, and the failure is the \<^verbatim>\<open>KeyError\<close> of the table lookup for
  that setup type (the specification's UnknownSetupType); it returns an integer amount
  exactly when the setup type is a key.
\<close>

theorem calculate_price_fails_iff_unknown_setup_type:
  "((\<exists>e. calculate_price st setup_type dur pl = Inl e) \<longleftrightarrow>
      setup_type \<notin> fst ` set (base_prices st))
   \<and> (calculate_price st setup_type dur pl = Inl (KeyError setup_type) \<longleftrightarrow>
      setup_type \<notin> fst ` set (base_prices st))
   \<and> ((\<exists>amount. calculate_price st setup_type dur pl = Inr amount) \<longleftrightarrow>
      setup_type \<in> fst ` set (base_prices st))"
proof (cases "map_of (base_prices st) setup_type")
  case None
  then have "setup_type \<notin> fst ` set (base_prices st)" by (simp add: map_of_eq_None_iff)
  with None show ?thesis by (auto simp: calculate_price_def)
next
  case (Some r)
  then have "setup_type \<in> fst ` set (base_prices st)"
    by (metis map_of_eq_None_iff option.distinct(1))
  with Some show ?thesis by (auto simp: calculate_price_def)
qed

section \<open>Lookup by identifier and email\<close>

lemma split_sep_plain: "sep \<notin> set s \<Longrightarrow> split_sep sep s = [s]"
  by (induction s) auto

lemma length_split_sep: "length (split_sep sep s) = Suc (count_list s sep)"
  by (induction s) (auto split: list.splits)

lemma document_get_plain:
  "CHR ''/'' \<notin> set i \<Longrightarrow> accepts_name i \<Longrightarrow>
   document_get accepts_name c docs i = Inr (map_of docs i)"
  by (simp add: document_get_def split_sep_plain)

lemma document_get_refused:
  "CHR ''/'' \<notin> set i \<Longrightarrow> \<not> accepts_name i \<Longrightarrow>
   document_get accepts_name c docs i = Inl DatabaseError"
  by (simp add: document_get_def split_sep_plain)

lemma document_get_odd:
  "odd (count_list i (CHR ''/'')) \<Longrightarrow> document_get accepts_name c docs i = Inl ValueError"
  by (simp add: document_get_def length_split_sep)

text \<open>
  Claim C6, as stated, fails: the lookup first rejects a missing or empty identifier or
  email with a 400 answer, so with an empty or absent email it fails with that answer, not
  with NotFound when no booking has the identifier and not with Forbidden when a booking has
  it under another email. And for the identifier \<^verbatim>\<open>a/b\<close>, which no booking has, the
  database client refuses to build the reference and the route answers 500, not NotFound.
\<close>

theorem check_booking_empty_email_counterexample:
  "map_of (bookings example_store) ''b2'' = None
   \<and> check_booking (\<lambda>n. True) example_store (Some ''b2'') (Some [])
       = Inl (ValidationError ''Booking ID and email are required'')
   \<and> check_booking (\<lambda>n. True) example_store (Some ''b2'') (Some []) \<noteq> Inl NotFound
   \<and> map_of (bookings example_store) ''b1'' = Some example_booking
   \<and> email example_booking \<noteq> []
   \<and> check_booking (\<lambda>n. True) example_store (Some ''b1'') None
       = Inl (ValidationError ''Booking ID and email are required'')
   \<and> check_booking (\<lambda>n. True) example_store (Some ''b1'') None
       \<noteq> Inl (Forbidden ''Invalid credentials'')
   \<and> map_of (bookings example_store) ''a/b'' = None
   \<and> check_booking (\<lambda>n. True) example_store (Some ''a/b'') (Some ''ann@example.org'')
       = Inl (UnexpectedError ValueError)"
  by (simp add: check_booking_def falsy_def document_get_def example_store_def
      example_booking_def)

text \<open>
  Claim C6, amended. When the identifier or the email is missing or empty, the lookup
  fails with the 400 answer \<^verbatim>\<open>Booking ID and email are required\<close>. When both are
  non-empty and the identifier is a name without \<^verbatim>\<open>/\<close> that the database accepts, it
  fails with NotFound if no booking has the identifier, with Forbidden (not NotFound) if
  the booking exists and its stored email differs from the given one, and returns the
  booking with its identifier if the emails are equal. When both are non-empty and the
  identifier has an odd number of \<^verbatim>\<open>/\<close>, or is a name without \<^verbatim>\<open>/\<close> that the
  database refuses, the lookup raises and the answer is 500.
\<close>

theorem check_booking_outcomes:
  "(falsy booking_id \<or> falsy em \<longrightarrow>
      check_booking accepts_name st booking_id em
        = Inl (ValidationError ''Booking ID and email are required''))
   \<and> (i \<noteq> [] \<and> e \<noteq> [] \<and> CHR ''/'' \<notin> set i \<and> accepts_name i \<longrightarrow>
        (map_of (bookings st) i = None \<longrightarrow>
           check_booking accepts_name st (Some i) (Some e) = Inl NotFound)
        \<and> (\<forall>b. map_of (bookings st) i = Some b \<and> email b \<noteq> e \<longrightarrow>
             check_booking accepts_name st (Some i) (Some e)
               = Inl (Forbidden ''Invalid credentials''))
        \<and> (\<forall>b. map_of (bookings st) i = Some b \<and> email b = e \<longrightarrow>
             check_booking accepts_name st (Some i) (Some e) = Inr (i, b)))
   \<and> (i \<noteq> [] \<and> e \<noteq> [] \<and> odd (count_list i (CHR ''/'')) \<longrightarrow>
        check_booking accepts_name st (Some i) (Some e) = Inl (UnexpectedError ValueError))
   \<and> (i \<noteq> [] \<and> e \<noteq> [] \<and> CHR ''/'' \<notin> set i \<and> \<not> accepts_name i \<longrightarrow>
        check_booking accepts_name st (Some i) (Some e) = Inl (UnexpectedError DatabaseError))"
  by (simp add: check_booking_def falsy_def document_get_plain document_get_odd
      document_get_refused)

theorem check_booking_outcomes_witness:
  "falsy (Some [])
   \<and> check_booking (\<lambda>n. n \<noteq> ''..'') example_store (Some ''b1'') (Some [])
       = Inl (ValidationError ''Booking ID and email are required'')
   \<and> check_booking (\<lambda>n. n \<noteq> ''..'') example_store (Some ''b2'') (Some ''ann@example.org'')
       = Inl NotFound
   \<and> map_of (bookings example_store) ''b2'' = None
   \<and> check_booking (\<lambda>n. n \<noteq> ''..'') example_store (Some ''b1'') (Some ''bob@example.org'')
       = Inl (Forbidden ''Invalid credentials'')
   \<and> check_booking (\<lambda>n. n \<noteq> ''..'') example_store (Some ''b1'') (Some ''ann@example.org'')
       = Inr (''b1'', example_booking)
   \<and> map_of (bookings example_store) ''b1'' = Some example_booking
   \<and> email example_booking = ''ann@example.org''
   \<and> count_list ''a/b'' (CHR ''/'') = 1
   \<and> check_booking (\<lambda>n. n \<noteq> ''..'') example_store (Some ''a/b'') (Some ''ann@example.org'')
       = Inl (UnexpectedError ValueError)
   \<and> check_booking (\<lambda>n. n \<noteq> ''..'') example_store (Some ''..'') (Some ''ann@example.org'')
       = Inl (UnexpectedError DatabaseError)"
proof -
  let ?ok = "\<lambda>n. n \<noteq> ''..''"
  have n: "map_of (bookings example_store) ''b2'' = None"
    and s: "map_of (bookings example_store) ''b1'' = Some example_booking"
    by (simp_all add: example_store_def)
  have m: "email example_booking = ''ann@example.org''"
    and d: "email example_booking \<noteq> ''bob@example.org''"
    by (simp_all add: example_booking_def)
  have f: "falsy (Some [])" by (simp add: falsy_def)
  have c: "count_list ''a/b'' (CHR ''/'') = 1" by simp
  have "check_booking ?ok example_store (Some ''b1'') (Some [])
       = Inl (ValidationError ''Booking ID and email are required'')"
    using check_booking_outcomes [of "Some ''b1''" "Some []" ?ok example_store] f by simp
  moreover
  have "check_booking ?ok example_store (Some ''b2'') (Some ''ann@example.org'') = Inl NotFound"
    using check_booking_outcomes [of _ _ ?ok example_store "''b2''" "''ann@example.org''"] n
    by simp
  moreover have "check_booking ?ok example_store (Some ''b1'') (Some ''bob@example.org'')
       = Inl (Forbidden ''Invalid credentials'')"
    using check_booking_outcomes [of _ _ ?ok example_store "''b1''" "''bob@example.org''"] s d
    by simp
  moreover have "check_booking ?ok example_store (Some ''b1'') (Some ''ann@example.org'')
       = Inr (''b1'', example_booking)"
    using check_booking_outcomes [of _ _ ?ok example_store "''b1''" "''ann@example.org''"] s m
    by simp
  moreover have "check_booking ?ok example_store (Some ''a/b'') (Some ''ann@example.org'')
       = Inl (UnexpectedError ValueError)"
    using check_booking_outcomes [of _ _ ?ok example_store "''a/b''" "''ann@example.org''"] c
    by simp
  moreover have "check_booking ?ok example_store (Some ''..'') (Some ''ann@example.org'')
       = Inl (UnexpectedError DatabaseError)"
    using check_booking_outcomes [of _ _ ?ok example_store "''..''" "''ann@example.org''"]
    by simp
  ultimately show ?thesis using f n s m c by (intro conjI)
qed

section \<open>Facts about the concrete inputs\<close>

lemma map_of_example_b1: "map_of (bookings example_store) ''b1'' = Some example_booking"
  by (simp add: example_store_def)

lemma py_int_09: "py_int (takeWhile (\<lambda>c. c \<noteq> CHR '':'') ''09:00'') = Some 9"
  by code_simp

lemma py_int_09_plain: "py_int ''09'' = Some 9"
  by code_simp

section \<open>Rescheduling outside the opening hours\<close>

text \<open>
  Claim C5, as stated, fails on the user route: a caller who does not own the booking is
  answered Forbidden before the new time is looked at, also when its hour is 9.
\<close>

theorem reschedule_non_owner_counterexample:
  "map_of (bookings example_store) ''b1'' = Some example_booking
   \<and> py_int (takeWhile (\<lambda>c. c \<noteq> CHR '':'') ''09:00'') = Some 9
   \<and> update_user_booking example_store ''2025-05-21T08:00:00'' ''u2'' ''b1''
         \<lparr>upd_status = None, upd_date = Some ''2025-06-02'', upd_time = Some ''09:00''\<rparr>
       = (Inl (Forbidden ''Unauthorized access''), example_store)"
  by (simp add: map_of_example_b1 py_int_09_plain update_user_booking_def example_booking_def)

text \<open>
  Claim C5, amended. Take an existing booking and a reschedule request (date and time
  given, status not \<^verbatim>\<open>cancelled\<close>) whose time has an hour, the integer before the
  first colon, below 10 or above 23. On the admin route the request fails with the 400
  answer of the hour validation (the specification's InvalidTimeFormat) and the store is
  unchanged, for every store, hence whatever slots are available on the new date; on the
  user route the same holds when the caller owns the booking, and a caller who does not
  own it is answered Forbidden.
\<close>

theorem reschedule_outside_hours_fails:
  assumes "map_of (bookings st) booking_id = Some b"
    and "upd_status data \<noteq> Some ''cancelled''"
    and "upd_date data = Some d" and "upd_time data = Some t"
    and "py_int (takeWhile (\<lambda>c. c \<noteq> CHR '':'') t) = Some hour"
    and "hour < 10 \<or> hour > 23"
  shows "update_booking st now booking_id data
           = (Inl (InvalidTimeFormat
                ''Invalid time slot. Hours must be between 10 AM and 11 PM''), st)
       \<and> (user_id b = uid \<longrightarrow>
            update_user_booking st now uid booking_id data
              = (Inl (InvalidTimeFormat
                   ''Invalid time slot. Hours must be between 10 AM and 11 PM''), st))
       \<and> (user_id b \<noteq> uid \<longrightarrow>
            update_user_booking st now uid booking_id data
              = (Inl (Forbidden ''Unauthorized access''), st))"
  using assms
  by (simp add: update_booking_def update_user_booking_def cancel_or_reschedule_def)

theorem reschedule_outside_hours_fails_witness:
  "map_of (bookings example_store) ''b1'' = Some example_booking
   \<and> py_int (takeWhile (\<lambda>c. c \<noteq> CHR '':'') ''09:00'') = Some 9
   \<and> user_id example_booking = ''u1''
   \<and> update_booking example_store ''2025-05-21T08:00:00'' ''b1''
         \<lparr>upd_status = None, upd_date = Some ''2025-06-02'', upd_time = Some ''09:00''\<rparr>
       = (Inl (InvalidTimeFormat
            ''Invalid time slot. Hours must be between 10 AM and 11 PM''), example_store)
   \<and> update_user_booking example_store ''2025-05-21T08:00:00'' ''u1'' ''b1''
         \<lparr>upd_status = None, upd_date = Some ''2025-06-02'', upd_time = Some ''09:00''\<rparr>
       = (Inl (InvalidTimeFormat
            ''Invalid time slot. Hours must be between 10 AM and 11 PM''), example_store)"
proof -
  let ?data = "\<lparr>upd_status = None, upd_date = Some ''2025-06-02'', upd_time = Some ''09:00''\<rparr>"
  have u: "user_id example_booking = ''u1''" by (simp add: example_booking_def)
  have "upd_status ?data \<noteq> Some ''cancelled''" "upd_date ?data = Some ''2025-06-02''"
    "upd_time ?data = Some ''09:00''" "(9::int) < 10 \<or> (9::int) > 23"
    by simp_all
  from reschedule_outside_hours_fails [OF map_of_example_b1 this(1,2,3) py_int_09 this(4),
      of "''2025-05-21T08:00:00''" "''u1''"] u map_of_example_b1 py_int_09_plain
  show ?thesis by simp
qed

text \<open>
  An hour that \<^verbatim>\<open>int\<close> cannot read is the other answer of the validation: the
  separator U+001C before the digits is not whitespace for \<^verbatim>\<open>int\<close>.
\<close>

lemma py_int_separator: "py_int [CHR 0x1C, CHR ''0'', CHR ''9''] = None"
  by code_simp

lemma reschedule_unreadable_hour:
  "update_booking example_store ''2025-05-21T08:00:00'' ''b1''
     \<lparr>upd_status = None, upd_date = Some ''2025-06-02'',
      upd_time = Some (CHR 0x1C # ''09:00'')\<rparr>
   = (Inl (InvalidTimeFormat ''Invalid time format''), example_store)"
  by (simp add: update_booking_def cancel_or_reschedule_def map_of_example_b1
      py_int_separator)

section \<open>Creating a booking\<close>

lemma example_resolve:
  "get_available_time_slots example_store ''2025-06-01'' = Inr all_slots"
proof -
  have t: "total_setups example_store = 4"
    by (simp add: total_setups_def available_setups_def example_store_def default_setups_def)
  have le: "noncancelled_count example_store ''2025-06-01'' slot \<le> 1" for slot
    by (simp add: noncancelled_count_def example_store_def)
  have "noncancelled_count example_store ''2025-06-01'' slot < total_setups example_store"
    for slot
    using le [of slot] by (simp add: t)
  then show ?thesis by (simp add: resolver_eq)
qed

lemma price_and_persist_error:
  "price_and_persist acc st now new_id uid s p d t dur = (Inl e, st') \<Longrightarrow> st' = st"
  unfolding price_and_persist_def Let_def
  by (cases "int_of_json dur"; cases "int_of_json p"; simp;
      cases "calculate_price st s (projr (int_of_json dur)) (projr (int_of_json p))"; simp;
      cases "map_of (users st) uid"; simp split: if_splits)

lemma price_and_persist_success:
  "price_and_persist acc st now new_id uid s p d t dur = (Inr (bid, b), st') \<Longrightarrow>
   bid = new_id \<and> status b = ''confirmed''
   \<and> (\<exists>dur_n p_n. int_of_json dur = Inr dur_n \<and> int_of_json p = Inr p_n
          \<and> calculate_price st s dur_n p_n = Inr (price b))
   \<and> storable acc b
   \<and> st' = st\<lparr>bookings := AList.update new_id b (bookings st)\<rparr>"
  unfolding price_and_persist_def Let_def
  by (cases "int_of_json dur"; cases "int_of_json p"; simp;
      cases "calculate_price st s (projr (int_of_json dur)) (projr (int_of_json p))"; simp;
      cases "map_of (users st) uid"; auto split: if_splits)

lemma not_0900: "''09:00'' \<notin> set all_slots"
  by (simp add: all_slots_eq)

lemma py_int_2: "py_int ''2'' = Some 2"
  by code_simp

lemma example_fields:
  "required_fields example_request
   = Inr (''individual'', JInt 3, ''2025-06-01'', ''15:00'', JStr ''2'')"
  by (simp add: required_fields_def example_request_def)

lemma example_price: "calculate_price example_store ''individual'' 2 3 = Inr 720"
  by (simp add: calculate_price_def base_prices_def default_pricing_def example_store_def)

lemma example_user_lookup: "map_of (users example_store) ''u1'' = Some example_user"
  by (simp add: example_store_def)

lemma example_storable: "storable (\<lambda>b. True) created_booking"
  by (simp add: storable_def int64_def created_booking_def)

lemma example_persist:
  "price_and_persist (\<lambda>b. True) example_store ''2025-05-21T08:00:00'' ''b9'' ''u1''
     ''individual'' (JInt 3) ''2025-06-01'' ''15:00'' (JStr ''2'')
   = (Inr (''b9'', created_booking),
      example_store\<lparr>bookings := [(''b1'', example_booking), (''b9'', created_booking)]\<rparr>)"
proof -
  have "AList.update ''b9'' created_booking (bookings example_store)
        = [(''b1'', example_booking), (''b9'', created_booking)]"
    by (simp add: example_store_def)
  moreover have "\<lparr>user_id = ''u1'', name = user_name example_user,
      email = user_email example_user, phone = user_phone example_user,
      setup_id = ''individual'', players = 3, date = ''2025-06-01'', time = ''15:00'',
      duration = 2, price = 720, status = ''confirmed'',
      created_at = ''2025-05-21T08:00:00'', updated_at = None\<rparr> = created_booking"
    by (simp add: created_booking_def example_user_def)
  ultimately show ?thesis
    by (simp add: price_and_persist_def int_of_json_def py_int_2 example_price
        example_user_lookup example_storable)
qed

lemma example_create:
  "create_booking (\<lambda>b. True) example_store ''2025-05-21T08:00:00'' ''b9'' ''u1''
     example_request
   = (Inr (''b9'', created_booking),
      example_store\<lparr>bookings := [(''b1'', example_booking), (''b9'', created_booking)]\<rparr>)"
  by (simp add: create_booking_def example_fields example_resolve all_slots_eq example_persist)

lemma example_too_large:
  "create_booking (\<lambda>b. True) example_store ''2025-05-21T08:00:00'' ''b9'' ''u1''
     (example_request\<lparr>req_players := Some (JInt 9223372036854775808)\<rparr>)
   = (Inl (UnexpectedError DatabaseError), example_store)"
proof -
  have f: "required_fields (example_request\<lparr>req_players := Some (JInt 9223372036854775808)\<rparr>)
           = Inr (''individual'', JInt 9223372036854775808, ''2025-06-01'', ''15:00'', JStr ''2'')"
    by (simp add: required_fields_def example_request_def)
  have "price_and_persist (\<lambda>b. True) example_store ''2025-05-21T08:00:00'' ''b9'' ''u1''
          ''individual'' (JInt 9223372036854775808) ''2025-06-01'' ''15:00'' (JStr ''2'')
        = (Inl (UnexpectedError DatabaseError), example_store)"
    by (simp add: price_and_persist_def int_of_json_def py_int_2 calculate_price_def
        base_prices_def default_pricing_def example_store_def storable_def int64_def)
  then show ?thesis
    by (simp add: create_booking_def f example_resolve all_slots_eq)
qed

text \<open>
  A players field that \<^verbatim>\<open>int\<close> cannot read ends the create with 500 and nothing
  written.
\<close>

lemma example_unreadable_players:
  "create_booking (\<lambda>b. True) example_store ''2025-05-21T08:00:00'' ''b9'' ''u1''
     (example_request\<lparr>req_players := Some (JStr [CHR 0x1C, CHR ''3''])\<rparr>)
   = (Inl (UnexpectedError ValueError), example_store)"
proof -
  have f: "required_fields (example_request\<lparr>req_players := Some (JStr [CHR 0x1C, CHR ''3''])\<rparr>)
           = Inr (''individual'', JStr [CHR 0x1C, CHR ''3''], ''2025-06-01'', ''15:00'',
                  JStr ''2'')"
    by (simp add: required_fields_def example_request_def)
  have n: "py_int [CHR 0x1C, CHR ''3''] = None" by code_simp
  have "price_and_persist (\<lambda>b. True) example_store ''2025-05-21T08:00:00'' ''b9'' ''u1''
          ''individual'' (JStr [CHR 0x1C, CHR ''3'']) ''2025-06-01'' ''15:00'' (JStr ''2'')
        = (Inl (UnexpectedError ValueError), example_store)"
    by (simp add: price_and_persist_def int_of_json_def py_int_2 n)
  then show ?thesis
    by (simp add: create_booking_def f example_resolve all_slots_eq)
qed

text \<open>
  Claim C7, as stated, fails: a request that lacks a required field is answered with the
  400 answer naming that field before the resolver is asked, so such a request whose time
  is not an available slot does not fail with SlotUnavailable.
\<close>

theorem create_missing_field_counterexample:
  "get_available_time_slots example_store ''2025-06-01'' = Inr all_slots
   \<and> ''09:00'' \<notin> set all_slots
   \<and> req_date (example_request\<lparr>req_setup := None, req_time := Some ''09:00''\<rparr>)
       = Some ''2025-06-01''
   \<and> req_time (example_request\<lparr>req_setup := None, req_time := Some ''09:00''\<rparr>)
       = Some ''09:00''
   \<and> create_booking (\<lambda>b. True) example_store ''2025-05-21T08:00:00'' ''b9'' ''u1''
         (example_request\<lparr>req_setup := None, req_time := Some ''09:00''\<rparr>)
       = (Inl (ValidationError ''Missing required field: setup''), example_store)"
  by (simp add: example_resolve not_0900 create_booking_def required_fields_def
      example_request_def)

text \<open>
  Claim C7, amended. A create request that lacks one of the five required fields fails
  with the 400 answer naming the first missing one. A request that carries all five and
  whose time is not in the resolver's result for its date fails with SlotUnavailable and
  leaves the store unchanged. Every failing create leaves the store unchanged. A
  successful create returns the generated identifier and the new booking, whose status is
  \<^verbatim>\<open>confirmed\<close> and whose price is what the pricing calculator returns for the
  request's setup, duration and players; the database accepted that booking (its numbers
  fit 64 bits), and the store afterwards is the old one with the booking stored under the
  identifier.
\<close>

theorem create_booking_outcomes:
  "(\<forall>f. required_fields data = Inl f \<longrightarrow>
       create_booking acc st now new_id uid data
         = (Inl (ValidationError (''Missing required field: '' @ f)), st))
   \<and> (\<forall>s p d t dur slots.
         required_fields data = Inr (s, p, d, t, dur)
         \<and> get_available_time_slots st d = Inr slots \<and> t \<notin> set slots \<longrightarrow>
         create_booking acc st now new_id uid data = (Inl SlotUnavailable, st))
   \<and> (\<forall>e st'. create_booking acc st now new_id uid data = (Inl e, st') \<longrightarrow> st' = st)
   \<and> (\<forall>bid b st'. create_booking acc st now new_id uid data = (Inr (bid, b), st') \<longrightarrow>
         bid = new_id \<and> status b = ''confirmed''
         \<and> (\<exists>s p d t dur dur_n p_n.
               required_fields data = Inr (s, p, d, t, dur)
               \<and> int_of_json dur = Inr dur_n \<and> int_of_json p = Inr p_n
               \<and> calculate_price st s dur_n p_n = Inr (price b))
         \<and> storable acc b
         \<and> st' = st\<lparr>bookings := AList.update new_id b (bookings st)\<rparr>
         \<and> map_of (bookings st') new_id = Some b)"
proof (intro conjI allI impI)
  fix f assume "required_fields data = Inl f"
  then show "create_booking acc st now new_id uid data
         = (Inl (ValidationError (''Missing required field: '' @ f)), st)"
    by (simp add: create_booking_def)
next
  fix s p d t dur slots
  assume "required_fields data = Inr (s, p, d, t, dur)
         \<and> get_available_time_slots st d = Inr slots \<and> t \<notin> set slots"
  then show "create_booking acc st now new_id uid data = (Inl SlotUnavailable, st)"
    by (simp add: create_booking_def)
next
  fix e st' assume a: "create_booking acc st now new_id uid data = (Inl e, st')"
  show "st' = st"
  proof (cases "required_fields data")
    case (Inl f)
    with a show ?thesis by (simp add: create_booking_def)
  next
    case (Inr r)
    obtain s p d t dur where r: "r = (s, p, d, t, dur)" by (cases r) auto
    show ?thesis
    proof (cases "t \<in> set (filter (\<lambda>slot. noncancelled_count st d slot < total_setups st)
                              all_slots)")
      case True
      with a Inr r have "price_and_persist acc st now new_id uid s p d t dur = (Inl e, st')"
        by (simp add: create_booking_def resolver_eq)
      then show ?thesis by (rule price_and_persist_error)
    next
      case False
      with a Inr r show ?thesis by (simp add: create_booking_def resolver_eq)
    qed
  qed
next
  fix bid b st' assume a: "create_booking acc st now new_id uid data = (Inr (bid, b), st')"
  have "\<exists>s p d t dur. required_fields data = Inr (s, p, d, t, dur)
          \<and> price_and_persist acc st now new_id uid s p d t dur = (Inr (bid, b), st')"
  proof (cases "required_fields data")
    case (Inl f)
    with a show ?thesis by (simp add: create_booking_def)
  next
    case (Inr r)
    obtain s p d t dur where r: "r = (s, p, d, t, dur)" by (cases r) auto
    show ?thesis
    proof (cases "t \<in> set (filter (\<lambda>slot. noncancelled_count st d slot < total_setups st)
                              all_slots)")
      case True
      with a Inr r show ?thesis by (simp add: create_booking_def resolver_eq)
    next
      case False
      with a Inr r show ?thesis by (simp add: create_booking_def resolver_eq)
    qed
  qed
  then obtain s p d t dur where f: "required_fields data = Inr (s, p, d, t, dur)"
    and pp: "price_and_persist acc st now new_id uid s p d t dur = (Inr (bid, b), st')"
    by blast
  note ps = price_and_persist_success [OF pp]
  from ps show "bid = new_id" by (rule conjunct1)
  from ps show "status b = ''confirmed''" by simp
  from ps f show "\<exists>s p d t dur dur_n p_n.
               required_fields data = Inr (s, p, d, t, dur)
               \<and> int_of_json dur = Inr dur_n \<and> int_of_json p = Inr p_n
               \<and> calculate_price st s dur_n p_n = Inr (price b)"
    by blast
  from ps show "storable acc b" by simp
  from ps show u: "st' = st\<lparr>bookings := AList.update new_id b (bookings st)\<rparr>" by simp
  show "map_of (bookings st') new_id = Some b"
    by (simp add: u update_conv')
qed

theorem create_booking_outcomes_witness:
  "create_booking (\<lambda>b. True) example_store ''2025-05-21T08:00:00'' ''b9'' ''u1''
       (example_request\<lparr>req_time := Some ''09:00''\<rparr>)
     = (Inl SlotUnavailable, example_store)
   \<and> create_booking (\<lambda>b. True) example_store ''2025-05-21T08:00:00'' ''b9'' ''u1''
       (example_request\<lparr>req_duration := None\<rparr>)
     = (Inl (ValidationError ''Missing required field: duration''), example_store)
   \<and> create_booking (\<lambda>b. True) example_store ''2025-05-21T08:00:00'' ''b9'' ''u1''
       (example_request\<lparr>req_players := Some (JInt 9223372036854775808)\<rparr>)
     = (Inl (UnexpectedError DatabaseError), example_store)
   \<and> create_booking (\<lambda>b. True) example_store ''2025-05-21T08:00:00'' ''b9'' ''u1''
       example_request
     = (Inr (''b9'', created_booking),
        example_store\<lparr>bookings := [(''b1'', example_booking), (''b9'', created_booking)]\<rparr>)
   \<and> status created_booking = ''confirmed''
   \<and> calculate_price example_store ''individual'' 2 3 = Inr (price created_booking)
   \<and> storable (\<lambda>b. True) created_booking
   \<and> map_of [(''b1'', example_booking), (''b9'', created_booking)] ''b9'' = Some created_booking"
proof -
  let ?now = "''2025-05-21T08:00:00''"
  let ?acc = "\<lambda>b::booking. True"
  have f1: "required_fields (example_request\<lparr>req_time := Some ''09:00''\<rparr>)
            = Inr (''individual'', JInt 3, ''2025-06-01'', ''09:00'', JStr ''2'')"
    and f2: "required_fields (example_request\<lparr>req_duration := None\<rparr>) = Inl ''duration''"
    by (simp_all add: required_fields_def example_request_def)
  have 1: "create_booking ?acc example_store ?now ''b9'' ''u1''
       (example_request\<lparr>req_time := Some ''09:00''\<rparr>) = (Inl SlotUnavailable, example_store)"
    using create_booking_outcomes
      [of "example_request\<lparr>req_time := Some ''09:00''\<rparr>" ?acc example_store ?now "''b9''"
          "''u1''"]
      f1 example_resolve not_0900
    by blast
  have 2: "create_booking ?acc example_store ?now ''b9'' ''u1''
       (example_request\<lparr>req_duration := None\<rparr>)
     = (Inl (ValidationError ''Missing required field: duration''), example_store)"
    using create_booking_outcomes
      [of "example_request\<lparr>req_duration := None\<rparr>" ?acc example_store ?now "''b9''" "''u1''"]
      f2
    by simp
  have 3: "status created_booking = ''confirmed''
     \<and> storable ?acc created_booking
     \<and> map_of [(''b1'', example_booking), (''b9'', created_booking)] ''b9'' = Some created_booking"
    using create_booking_outcomes [of example_request ?acc example_store ?now "''b9''" "''u1''"]
      example_create
    by simp
  have 4: "calculate_price example_store ''individual'' 2 3 = Inr (price created_booking)"
    by (simp add: example_price created_booking_def)
  from 1 2 3 4 example_create example_too_large show ?thesis by (intro conjI) simp_all
qed

section \<open>Status transitions\<close>

lemma read_back_map_entry:
  "map_of (bookings st) k = Some b \<Longrightarrow>
   read_back (st\<lparr>bookings := AList.map_entry k f (bookings st)\<rparr>) k
     = (Inr (k, f b), st\<lparr>bookings := AList.map_entry k f (bookings st)\<rparr>)"
  by (simp add: read_back_def map_of_map_entry)

lemma cancel_or_reschedule_cases:
  assumes "map_of (bookings st) k = Some b"
  shows "(\<exists>e. cancel_or_reschedule st now k data = (Inl e, st))
       \<or> (upd_status data = Some ''cancelled''
           \<and> cancel_or_reschedule st now k data
               = (Inr (k, b\<lparr>status := ''cancelled''\<rparr>),
                  st\<lparr>bookings := AList.map_entry k (\<lambda>b. b\<lparr>status := ''cancelled''\<rparr>)
                                   (bookings st)\<rparr>))
       \<or> (upd_status data \<noteq> Some ''cancelled''
           \<and> (\<exists>d t. cancel_or_reschedule st now k data
               = (Inr (k, b\<lparr>date := d, time := t, status := ''rescheduled'',
                             updated_at := Some now\<rparr>),
                  st\<lparr>bookings := AList.map_entry k
                         (\<lambda>b. b\<lparr>date := d, time := t, status := ''rescheduled'',
                                updated_at := Some now\<rparr>) (bookings st)\<rparr>)))"
proof (cases "upd_status data = Some ''cancelled''")
  case True
  then show ?thesis
    by (simp add: cancel_or_reschedule_def read_back_map_entry [OF assms])
next
  case False
  show ?thesis
  proof (cases "upd_date data")
    case None
    with False show ?thesis by (simp add: cancel_or_reschedule_def)
  next
    case d: (Some d)
    show ?thesis
    proof (cases "upd_time data")
      case None
      with False d show ?thesis by (simp add: cancel_or_reschedule_def)
    next
      case t: (Some t)
      show ?thesis
      proof (cases "py_int (takeWhile (\<lambda>c. c \<noteq> CHR '':'') t)")
        case None
        with False d t show ?thesis by (simp add: cancel_or_reschedule_def)
      next
        case (Some hour)
        show ?thesis
        proof (cases "hour < 10 \<or> hour > 23")
          case True
          with False d t Some show ?thesis by (simp add: cancel_or_reschedule_def)
        next
          case inrange: False
          show ?thesis
          proof (cases "t \<in> set (filter (\<lambda>slot. noncancelled_count st d slot < total_setups st)
                                    all_slots)")
            case True
            with False d t Some inrange have
              "cancel_or_reschedule st now k data
               = (Inr (k, b\<lparr>date := d, time := t, status := ''rescheduled'',
                             updated_at := Some now\<rparr>),
                  st\<lparr>bookings := AList.map_entry k
                         (\<lambda>b. b\<lparr>date := d, time := t, status := ''rescheduled'',
                                updated_at := Some now\<rparr>) (bookings st)\<rparr>)"
              by (simp add: cancel_or_reschedule_def resolver_eq read_back_map_entry [OF assms])
            with False show ?thesis by blast
          next
            case notin: False
            with False d t Some inrange show ?thesis
              by (simp add: cancel_or_reschedule_def resolver_eq)
          qed
        qed
      qed
    qed
  qed
qed

lemma cancel_or_reschedule_effect:
  assumes b: "map_of (bookings st) k = Some b"
    and c: "cancel_or_reschedule st now k data = (r, st')"
  shows "(\<forall>e. r = Inl e \<longrightarrow> st' = st)
       \<and> (\<forall>i b'. r = Inr (i, b') \<longrightarrow>
            i = k \<and> map_of (bookings st') k = Some b'
            \<and> status b' = (if upd_status data = Some ''cancelled'' then ''cancelled''
                            else ''rescheduled''))
       \<and> (\<forall>i. i \<noteq> k \<longrightarrow> map_of (bookings st') i = map_of (bookings st) i)"
  using cancel_or_reschedule_cases [OF b, of now data]
proof (elim disjE exE conjE)
  fix e assume "cancel_or_reschedule st now k data = (Inl e, st)"
  with c show ?thesis by auto
next
  assume "upd_status data = Some ''cancelled''"
    and "cancel_or_reschedule st now k data
               = (Inr (k, b\<lparr>status := ''cancelled''\<rparr>),
                  st\<lparr>bookings := AList.map_entry k (\<lambda>b. b\<lparr>status := ''cancelled''\<rparr>)
                                   (bookings st)\<rparr>)"
  with b c show ?thesis by (auto simp: map_of_map_entry)
next
  fix d t
  assume "upd_status data \<noteq> Some ''cancelled''"
    and "cancel_or_reschedule st now k data
               = (Inr (k, b\<lparr>date := d, time := t, status := ''rescheduled'',
                             updated_at := Some now\<rparr>),
                  st\<lparr>bookings := AList.map_entry k
                         (\<lambda>b. b\<lparr>date := d, time := t, status := ''rescheduled'',
                                updated_at := Some now\<rparr>) (bookings st)\<rparr>)"
  with b c show ?thesis by (auto simp: map_of_map_entry)
qed

lemma py_int_15: "py_int ''15'' = Some 15"
  by code_simp

lemma cancelled_resolve:
  "get_available_time_slots cancelled_store ''2025-06-02'' = Inr all_slots"
proof -
  have t: "total_setups cancelled_store = 4"
    by (simp add: total_setups_def available_setups_def cancelled_store_def default_setups_def)
  have z: "noncancelled_count cancelled_store ''2025-06-02'' slot = 0" for slot
    by (simp add: noncancelled_count_def cancelled_store_def)
  show ?thesis by (simp add: resolver_eq z t)
qed

lemma map_of_cancelled_b1:
  "map_of (bookings cancelled_store) ''b1'' = Some (example_booking\<lparr>status := ''cancelled''\<rparr>)"
  by (simp add: cancelled_store_def)

lemma cancelled_reschedule:
  "update_booking cancelled_store ''2025-05-21T08:00:00'' ''b1'' reschedule_request
   = (Inr (''b1'', rescheduled_booking),
      cancelled_store\<lparr>bookings := [(''b1'', rescheduled_booking)]\<rparr>)"
proof -
  have m: "AList.map_entry ''b1'' f (bookings cancelled_store)
           = [(''b1'', f (example_booking\<lparr>status := ''cancelled''\<rparr>))]" for f
    by (simp add: cancelled_store_def)
  have "cancel_or_reschedule cancelled_store ''2025-05-21T08:00:00'' ''b1'' reschedule_request
        = (Inr (''b1'', rescheduled_booking),
           cancelled_store\<lparr>bookings := [(''b1'', rescheduled_booking)]\<rparr>)"
    by (simp add: cancel_or_reschedule_def reschedule_request_def py_int_15 cancelled_resolve
        all_slots_eq m read_back_def rescheduled_booking_def)
  then show ?thesis by (simp add: update_booking_def map_of_cancelled_b1)
qed

text \<open>
  Claim C1, as stated, fails: neither route looks at the current status, so rescheduling a
  booking whose status is \<^verbatim>\<open>cancelled\<close> to an available slot succeeds and leaves it
  with status \<^verbatim>\<open>rescheduled\<close>.
\<close>

theorem cancelled_booking_rescheduled_counterexample:
  "map_of (bookings cancelled_store) ''b1'' = Some (example_booking\<lparr>status := ''cancelled''\<rparr>)
   \<and> status (example_booking\<lparr>status := ''cancelled''\<rparr>) = ''cancelled''
   \<and> update_booking cancelled_store ''2025-05-21T08:00:00'' ''b1'' reschedule_request
       = (Inr (''b1'', rescheduled_booking),
          cancelled_store\<lparr>bookings := [(''b1'', rescheduled_booking)]\<rparr>)
   \<and> map_of (bookings (cancelled_store\<lparr>bookings := [(''b1'', rescheduled_booking)]\<rparr>)) ''b1''
       = Some rescheduled_booking
   \<and> status rescheduled_booking = ''rescheduled''"
  by (simp add: map_of_cancelled_b1 cancelled_reschedule rescheduled_booking_def)

text \<open>
  Claim C1, amended. A cancel or reschedule, on the admin or on the user route, that fails
  leaves the store as it was. One that succeeds returns the addressed booking as stored
  afterwards, and its status is then \<^verbatim>\<open>cancelled\<close> for a cancel and
  \<^verbatim>\<open>rescheduled\<close> for a reschedule, whatever it was before; so no operation sets a
  status to \<^verbatim>\<open>confirmed\<close>, and \<^verbatim>\<open>cancelled\<close> to \<^verbatim>\<open>rescheduled\<close> does
  occur. Every other booking is left as it was.
\<close>

theorem lifecycle_status_transitions:
  assumes "update_booking st now booking_id data = (r, st')
           \<or> update_user_booking st now uid booking_id data = (r, st')"
  shows "(\<forall>e. r = Inl e \<longrightarrow> st' = st)
       \<and> (\<forall>i b'. r = Inr (i, b') \<longrightarrow>
            i = booking_id \<and> map_of (bookings st') booking_id = Some b'
            \<and> status b' = (if upd_status data = Some ''cancelled'' then ''cancelled''
                            else ''rescheduled''))
       \<and> (\<forall>i. i \<noteq> booking_id \<longrightarrow> map_of (bookings st') i = map_of (bookings st) i)"
proof (cases "map_of (bookings st) booking_id")
  case None
  with assms have "r = Inl NotFound \<and> st' = st"
    by (auto simp: update_booking_def update_user_booking_def)
  then show ?thesis by simp
next
  case (Some b)
  show ?thesis
  proof (cases "cancel_or_reschedule st now booking_id data = (r, st')")
    case True
    from Some True show ?thesis by (rule cancel_or_reschedule_effect)
  next
    case False
    with assms Some have "r = Inl (Forbidden ''Unauthorized access'') \<and> st' = st"
      by (auto simp: update_booking_def update_user_booking_def split: if_splits)
    then show ?thesis by simp
  qed
qed

theorem lifecycle_status_transitions_witness:
  "update_user_booking example_store ''2025-05-21T08:00:00'' ''u1'' ''b1''
       \<lparr>upd_status = Some ''cancelled'', upd_date = None, upd_time = None\<rparr>
     = (Inr (''b1'', example_booking\<lparr>status := ''cancelled''\<rparr>), cancelled_store)
   \<and> status example_booking = ''confirmed''
   \<and> map_of (bookings cancelled_store) ''b1'' = Some (example_booking\<lparr>status := ''cancelled''\<rparr>)
   \<and> status (example_booking\<lparr>status := ''cancelled''\<rparr>) = ''cancelled''
   \<and> map_of (bookings cancelled_store) ''b2'' = map_of (bookings example_store) ''b2''"
proof -
  let ?data = "\<lparr>upd_status = Some ''cancelled'', upd_date = None, upd_time = None\<rparr>"
  have e: "update_user_booking example_store ''2025-05-21T08:00:00'' ''u1'' ''b1'' ?data
     = (Inr (''b1'', example_booking\<lparr>status := ''cancelled''\<rparr>), cancelled_store)"
    by (simp add: update_user_booking_def cancel_or_reschedule_def read_back_def
        example_store_def cancelled_store_def example_booking_def)
  then have "update_booking example_store ''2025-05-21T08:00:00'' ''b1'' ?data
       = (Inr (''b1'', example_booking\<lparr>status := ''cancelled''\<rparr>), cancelled_store)
     \<or> update_user_booking example_store ''2025-05-21T08:00:00'' ''u1'' ''b1'' ?data
       = (Inr (''b1'', example_booking\<lparr>status := ''cancelled''\<rparr>), cancelled_store)"
    by (rule disjI2)
  from lifecycle_status_transitions [OF this] e
  show ?thesis by (simp add: example_booking_def)
qed

end
